theory Spec2Isabelle
  imports Complex_Main "HOL-Library.Sublist"
begin

section \<open>Contact manager: fields, records and the address book\<close>

text \<open>
  The development embeds \<^verbatim>\<open>ab_classes.py\<close>: the field classes \<^verbatim>\<open>Name\<close>,
  \<^verbatim>\<open>Phone\<close>, \<^verbatim>\<open>Birthday\<close>, the class \<^verbatim>\<open>Record\<close> and the class
  \<^verbatim>\<open>AddressBook\<close>. A Python \<^verbatim>\<open>str\<close> is a \<^typ>\<open>string\<close> whose characters are the
  code points below 256; a Python \<^verbatim>\<open>int\<close> is an \<^typ>\<open>int\<close>. A method that mutates
  its object takes the object and returns the new one. A raised exception is a value of
  the result. The functions of the standard library that the classes call are modelled
  from the library's documentation, except \<^verbatim>\<open>re.match\<close>, which is a parameter of
  \<^verbatim>\<open>search\<close>.
\<close>

subsection \<open>Exceptions\<close>

text \<open>
  The exceptions that leave the methods: the four that the classes raise themselves or
  through the list, date and slice functions, \<^verbatim>\<open>re.error\<close> from the regular expression
  library, and the two of reading a file.
\<close>

datatype error =
  ValueError | TypeError | IndexError | ReError | FileNotFoundError | UnpicklingError

subsection \<open>The string methods the classes call\<close>

definition isdecimal_char :: "char \<Rightarrow> bool" where
  "isdecimal_char c = (let n = (of_char c :: nat) in 48 \<le> n \<and> n \<le> 57)"

definition isnumeric_char :: "char \<Rightarrow> bool" where
  \<comment> \<open>The decimal digits, the superscripts 1, 2, 3 and the fractions 1/4, 1/2, 3/4.\<close>
  "isnumeric_char c =
     (let n = (of_char c :: nat)
      in (48 \<le> n \<and> n \<le> 57) \<or> n = 178 \<or> n = 179 \<or> n = 185 \<or> n = 188 \<or> n = 189 \<or> n = 190)"

definition isspace_char :: "char \<Rightarrow> bool" where
  "isspace_char c =
     (let n = (of_char c :: nat)
      in (9 \<le> n \<and> n \<le> 13) \<or> (28 \<le> n \<and> n \<le> 32) \<or> n = 133 \<or> n = 160)"

definition isdecimal :: "string \<Rightarrow> bool" where
  \<comment> \<open>\<^verbatim>\<open>str.isdecimal\<close>: false on the empty string.\<close>
  "isdecimal s = (s \<noteq> [] \<and> list_all isdecimal_char s)"

definition isnumeric :: "string \<Rightarrow> bool" where
  "isnumeric s = (s \<noteq> [] \<and> list_all isnumeric_char s)"

definition strip :: "string \<Rightarrow> string" where
  "strip s = rev (dropWhile isspace_char (rev (dropWhile isspace_char s)))"

definition removeprefix :: "string \<Rightarrow> string \<Rightarrow> string" where
  "removeprefix p s = (if prefix p s then drop (length p) s else s)"

definition replace_char :: "char \<Rightarrow> string \<Rightarrow> string \<Rightarrow> string" where
  \<comment> \<open>\<^verbatim>\<open>s.replace(old, new)\<close> for a one-character \<open>old\<close>.\<close>
  "replace_char old new s = concat (map (\<lambda>c. if c = old then new else [c]) s)"

fun join :: "string \<Rightarrow> string list \<Rightarrow> string" where
  "join sep [] = []"
| "join sep [x] = x"
| "join sep (x # y # ys) = x @ sep @ join sep (y # ys)"

definition digit_char :: "nat \<Rightarrow> char" where
  "digit_char n = char_of (48 + n)"

function str_nat :: "nat \<Rightarrow> string" where
  "str_nat n = (if n < 10 then [digit_char n] else str_nat (n div 10) @ [digit_char (n mod 10)])"
  by pat_completeness auto
termination
  by (relation "measure (\<lambda>n. n)") auto

declare str_nat.simps [simp del]

definition str_int :: "int \<Rightarrow> string" where
  "str_int i = (if i < 0 then CHR ''-'' # str_nat (nat (- i)) else str_nat (nat i))"

subsection \<open>Field values\<close>

text \<open>
  Each setter either stores a value or raises. \<open>name_value\<close> is the setter of
  \<^verbatim>\<open>Name.value\<close>, \<open>phone_value\<close> the setter of \<^verbatim>\<open>Phone.value\<close>; the result is
  the stored value.
\<close>

definition name_value :: "string \<Rightarrow> error + string" where
  "name_value v = (if \<not> (isnumeric v \<or> length v < 3) then Inr v else Inl ValueError)"

definition min_len :: nat where
  "min_len = 5"

definition max_len :: nat where
  "max_len = 17"

definition new_phone :: "string \<Rightarrow> string" where
  "new_phone v =
     replace_char CHR ''-'' []
       (replace_char CHR '')'' []
         (replace_char CHR ''('' []
           (removeprefix ''+'' (strip v))))"

definition phone_value :: "string \<Rightarrow> error + string" where
  "phone_value v =
     (if \<not> isdecimal (new_phone v)
         \<or> \<not> (min_len \<le> length (new_phone v) \<and> length (new_phone v) \<le> max_len)
      then Inl TypeError
      else Inr (new_phone v))"

subsection \<open>Dates\<close>

text \<open>
  A \<^verbatim>\<open>datetime\<close> value. \<^verbatim>\<open>Birthday.value\<close> holds the result of \<^verbatim>\<open>strptime\<close>,
  a \<^verbatim>\<open>datetime\<close> at midnight. The calendar functions follow the library's
  \<^verbatim>\<open>_is_leap\<close>, \<^verbatim>\<open>_days_in_month\<close>, \<^verbatim>\<open>_days_before_year\<close>,
  \<^verbatim>\<open>_days_before_month\<close> and \<^verbatim>\<open>toordinal\<close>.
\<close>

record datetime =
  year :: int
  month :: int
  day :: int
  hour :: int
  minute :: int
  second :: int
  microsecond :: int

definition is_leap :: "int \<Rightarrow> bool" where
  "is_leap y = (y mod 4 = 0 \<and> (y mod 100 \<noteq> 0 \<or> y mod 400 = 0))"

definition days_in_month :: "int \<Rightarrow> int \<Rightarrow> int" where
  "days_in_month y m =
     (if m = 2 then (if is_leap y then 29 else 28)
      else if m = 4 \<or> m = 6 \<or> m = 9 \<or> m = 11 then 30
      else 31)"

definition days_before_year :: "int \<Rightarrow> int" where
  "days_before_year y = (y - 1) * 365 + (y - 1) div 4 - (y - 1) div 100 + (y - 1) div 400"

definition days_before_month :: "int \<Rightarrow> int \<Rightarrow> int" where
  "days_before_month y m = sum_list (map (days_in_month y) [1..m - 1])"

definition toordinal :: "datetime \<Rightarrow> int" where
  "toordinal d = days_before_year (year d) + days_before_month (year d) (month d) + day d"

definition check_date_fields :: "int \<Rightarrow> int \<Rightarrow> int \<Rightarrow> bool" where
  "check_date_fields y m d =
     (1 \<le> y \<and> y \<le> 9999 \<and> 1 \<le> m \<and> m \<le> 12 \<and> 1 \<le> d \<and> d \<le> days_in_month y m)"

definition replace_year :: "datetime \<Rightarrow> int \<Rightarrow> error + datetime" where
  \<comment> \<open>\<^verbatim>\<open>d.replace(year=y)\<close>: builds a new datetime, which checks the date fields.\<close>
  "replace_year d y =
     (if check_date_fields y (month d) (day d) then Inr (d\<lparr>year := y\<rparr>) else Inl ValueError)"

definition timedelta_days :: "int \<Rightarrow> int \<Rightarrow> int \<Rightarrow> int" where
  \<comment> \<open>The \<^verbatim>\<open>days\<close> of the normalised \<^verbatim>\<open>timedelta(days, seconds, microseconds)\<close>.\<close>
  "timedelta_days ds ss us = ((ds * 86400 + ss) * 1000000 + us) div (86400 * 1000000)"

definition sub_days :: "datetime \<Rightarrow> datetime \<Rightarrow> int" where
  \<comment> \<open>\<^verbatim>\<open>(a - b).days\<close>\<close>
  "sub_days a b =
     timedelta_days (toordinal a - toordinal b)
       ((second a + minute a * 60 + hour a * 3600) - (second b + minute b * 60 + hour b * 3600))
       (microsecond a - microsecond b)"

definition zero_pad :: "nat \<Rightarrow> string \<Rightarrow> string" where
  "zero_pad w s = replicate (w - length s) CHR ''0'' @ s"

definition birthday_str :: "datetime \<Rightarrow> string" where
  \<comment> \<open>\<^verbatim>\<open>Birthday.__str__\<close>: \<^verbatim>\<open>strftime\<close> with the format \<^verbatim>\<open>%d.%m.%Y\<close>. Day and
      month are written with two digits; the year is written without padding (the year
      999 as \<^verbatim>\<open>999\<close>).\<close>
  "birthday_str b =
     zero_pad 2 (str_int (day b)) @ ''.'' @ zero_pad 2 (str_int (month b)) @ ''.''
       @ str_int (year b)"

subsection \<open>Lists\<close>

text \<open>
  \<^verbatim>\<open>list.pop(i)\<close> and \<^verbatim>\<open>list.insert(i, x)\<close>: a negative index counts from the end.
  \<^verbatim>\<open>pop\<close> raises for an index outside the list; \<^verbatim>\<open>insert\<close> clamps it.
\<close>

definition list_pop :: "'a list \<Rightarrow> int \<Rightarrow> 'a list \<times> (error + 'a)" where
  \<comment> \<open>The list after the call, and the exception or the removed element.\<close>
  "list_pop xs i =
     (let n = int (length xs); j = (if i < 0 then i + n else i)
      in if j < 0 \<or> n \<le> j then (xs, Inl IndexError)
         else (take (nat j) xs @ drop (Suc (nat j)) xs, Inr (xs ! nat j)))"

definition list_insert :: "'a list \<Rightarrow> int \<Rightarrow> 'a \<Rightarrow> 'a list" where
  "list_insert xs i x =
     (let n = int (length xs);
          j0 = (if i < 0 then i + n else i);
          j = (if j0 < 0 then 0 else if n < j0 then n else j0)
      in take (nat j) xs @ x # drop (nat j) xs)"

definition maxsize :: int where
  \<comment> \<open>\<^verbatim>\<open>sys.maxsize\<close> of a 64-bit interpreter.\<close>
  "maxsize = 2 ^ 63 - 1"

definition islice :: "'a list \<Rightarrow> int \<Rightarrow> int \<Rightarrow> error + 'a list" where
  \<comment> \<open>\<^verbatim>\<open>islice(xs, start, stop)\<close>, read to its end. The call raises for a negative
      bound and for a stop above \<^verbatim>\<open>sys.maxsize\<close>.\<close>
  "islice xs start stop =
     (if start < 0 \<or> stop < 0 \<or> maxsize < stop then Inl ValueError
      else Inr (take (nat stop - nat start) (drop (nat start) xs)))"

subsection \<open>Record\<close>

record Record =
  name :: string
  phones :: "string list"
  birthday :: "datetime option"
  email :: "string option"

definition Record_init :: "string \<Rightarrow> string option \<Rightarrow> datetime option \<Rightarrow> string option \<Rightarrow> Record" where
  "Record_init n phone b e =
     \<lparr>name = n, phones = (case phone of None \<Rightarrow> [] | Some p \<Rightarrow> [] @ [p]), birthday = b, email = e\<rparr>"

definition format_field :: "('a \<Rightarrow> string) \<Rightarrow> 'a option \<Rightarrow> string" where
  \<comment> \<open>A replacement field of the f-string: \<^verbatim>\<open>None\<close> formats as its name.\<close>
  "format_field str v = (case v of None \<Rightarrow> ''None'' | Some x \<Rightarrow> str x)"

definition record_str :: "Record \<Rightarrow> string" where
  \<comment> \<open>\<^verbatim>\<open>Record.__str__\<close>\<close>
  "record_str r =
     name r @ '': Phones: '' @ join '', '' (map (\<lambda>phone. phone) (phones r))
       @ ''; E-mail:'' @ format_field (\<lambda>e. e) (email r)
       @ ''; B-day:'' @ format_field birthday_str (birthday r) @ '' \<newline>''"

definition days_to_birthday :: "datetime \<Rightarrow> Record \<Rightarrow> error + string" where
  \<comment> \<open>The first argument is the clock reading \<^verbatim>\<open>datetime.today()\<close>.\<close>
  "days_to_birthday today r =
     (case birthday r of
        None \<Rightarrow> Inr ''Sorry, no birthdate for this contact''
      | Some b \<Rightarrow>
          (case replace_year b (year today) of
             Inl e \<Rightarrow> Inl e
           | Inr compare \<Rightarrow>
               if sub_days compare today > 0
               then Inr (str_int (sub_days compare today) @ '' days to birthday'')
               else if month today = month compare \<and> day today = day compare
               then Inr ''It is TODAY!!!''
               else (case replace_year compare (year today + 1) of
                       Inl e \<Rightarrow> Inl e
                     | Inr next_year \<Rightarrow>
                         Inr (str_int (sub_days next_year today) @ '' days to birthday''))))"

definition add_phone :: "Record \<Rightarrow> string \<Rightarrow> Record" where
  "add_phone r phone = r\<lparr>phones := phones r @ [phone]\<rparr>"

definition add_email :: "Record \<Rightarrow> string \<Rightarrow> Record" where
  "add_email r e = r\<lparr>email := Some e\<rparr>"

text \<open>
  The methods that may raise after or before an assignment return the record as it is
  when the call ends, with the exception raised (if any) or the value returned.
\<close>

definition add_birthday :: "Record \<Rightarrow> datetime \<Rightarrow> Record \<times> error option" where
  "add_birthday r b =
     (if birthday r = None then (r\<lparr>birthday := Some b\<rparr>, None) else (r, Some IndexError))"

definition del_phone :: "Record \<Rightarrow> int \<Rightarrow> Record \<times> (error + string)" where
  "del_phone r num =
     (if phones r = [] then (r, Inl IndexError)
      else (case list_pop (phones r) (num - 1) of
              (rest, res) \<Rightarrow> (r\<lparr>phones := rest\<rparr>, res)))"

definition edit_phone :: "Record \<Rightarrow> string \<Rightarrow> int \<Rightarrow> Record \<times> error option" where
  "edit_phone r phone_new num =
     (if phones r = [] then (r, Some IndexError)
      else (case list_pop (phones r) (num - 1) of
              (rest, Inl e) \<Rightarrow> (r\<lparr>phones := rest\<rparr>, Some e)
            | (rest, Inr p) \<Rightarrow> (r\<lparr>phones := list_insert rest (num - 1) phone_new\<rparr>, None)))"

subsection \<open>AddressBook\<close>

text \<open>
  The book's \<^verbatim>\<open>data\<close> is a \<^verbatim>\<open>dict\<close>, which iterates in insertion order: a list of
  pairs without repeated keys. Storing under a present key replaces the value where it
  stands; storing under a new key appends.
\<close>

type_synonym AddressBook = "(string \<times> Record) list"

fun dict_update :: "'k \<Rightarrow> 'v \<Rightarrow> ('k \<times> 'v) list \<Rightarrow> ('k \<times> 'v) list" where
  "dict_update k v [] = [(k, v)]"
| "dict_update k v ((k', v') # d) =
     (if k' = k then (k', v) # d else (k', v') # dict_update k v d)"

definition dict_values :: "('k \<times> 'v) list \<Rightarrow> 'v list" where
  "dict_values d = map snd d"

definition add_record :: "AddressBook \<Rightarrow> Record \<Rightarrow> AddressBook" where
  "add_record book r = dict_update (name r) r book"

definition total :: "AddressBook \<Rightarrow> string" where
  "total book = ''Total: '' @ str_nat (length book) @ '' contacts.''"

definition show_all :: "AddressBook \<Rightarrow> string" where
  "show_all book = concat (map record_str (dict_values book)) @ total book"

text \<open>
  \<^verbatim>\<open>iterator\<close> is a generator; the model is the list of the strings it yields, in
  order, with the exception that ends it (if one does). The loop yields a page and goes
  on only when the slice at \<open>start\<close> rendered to a non-empty string, which needs an
  element of the data at \<open>start\<close> and a positive page size: the distance from
  \<open>start\<close> to the end of the data decreases.
\<close>

function iterator_from :: "AddressBook \<Rightarrow> int \<Rightarrow> int \<Rightarrow> string list \<times> error option" where
  "iterator_from book page start =
     (case islice (dict_values book) start (start + page) of
        Inl e \<Rightarrow> ([], Some e)
      | Inr sl \<Rightarrow>
          (let output = concat (map record_str sl)
           in if output = [] then ([total book], None)
              else (case iterator_from book page (start + page) of
                      (rest, e) \<Rightarrow> (output # rest, e))))"
  by pat_completeness auto
termination
proof (relation "measure (\<lambda>(book, page, start). length book - nat start)")
  show "wf (measure (\<lambda>(book, page, start). length book - nat start))"
    by simp
next
  fix book :: AddressBook and page start :: int and sl rendered
  assume sl: "islice (dict_values book) start (start + page) = Inr sl"
    and out: "rendered = concat (map record_str sl)" "rendered \<noteq> []"
  from sl have bounds: "0 \<le> start" "0 \<le> start + page"
    and sl_eq: "sl = take (nat (start + page) - nat start) (drop (nat start) (dict_values book))"
    by (auto simp: islice_def split: if_splits)
  from out have "sl \<noteq> []"
    by auto
  with sl_eq have "nat start < nat (start + page)" "nat start < length book"
    by (auto simp: dict_values_def)
  then have "length book - nat (start + page) < length book - nat start"
    by (rule diff_less_mono2)
  then show "((book, page, start + page), (book, page, start))
      \<in> measure (\<lambda>(book, page, start). length book - nat start)"
    by simp
qed

declare iterator_from.simps [simp del]

definition iterator :: "AddressBook \<Rightarrow> int \<Rightarrow> string list \<times> error option" where
  "iterator book page = iterator_from book page 0"

subsection \<open>Files\<close>

text \<open>
  \<^verbatim>\<open>save_to_file\<close> and \<^verbatim>\<open>load_from_file\<close> hand the book's data to \<^verbatim>\<open>pickle.dump\<close>
  and take it from \<^verbatim>\<open>pickle.load\<close>. The files are a map from names to contents.
  Opening a file for writing replaces its content; opening a missing file for reading
  raises.
\<close>

datatype blob = Pickled "(string \<times> Record) list" | Unreadable

definition pickle_dump :: "(string \<times> Record) list \<Rightarrow> blob" where
  \<comment> \<open>Modelled from the spec: the serialised form of the mapping, which the spec leaves to
      the implementation and requires to round-trip all Field and Record state exactly
      (the library's \<^verbatim>\<open>pickle.dump\<close>).\<close>
  "pickle_dump d = Pickled d"

definition pickle_load :: "blob \<Rightarrow> error + (string \<times> Record) list" where
  \<comment> \<open>Modelled from the spec: reading a blob back; a blob that was not written by
      \<^verbatim>\<open>pickle_dump\<close> cannot be deserialised (the library's \<^verbatim>\<open>pickle.load\<close>).\<close>
  "pickle_load b = (case b of Pickled d \<Rightarrow> Inr d | Unreadable \<Rightarrow> Inl UnpicklingError)"

type_synonym files = "string \<rightharpoonup> blob"

definition save_to_file :: "AddressBook \<Rightarrow> string \<Rightarrow> files \<Rightarrow> files" where
  "save_to_file book filename fs = fs(filename \<mapsto> pickle_dump book)"

definition load_from_file :: "AddressBook \<Rightarrow> string \<Rightarrow> files \<Rightarrow> AddressBook \<times> error option" where
  \<comment> \<open>The book after the call and the exception raised, if any.\<close>
  "load_from_file book filename fs =
     (case fs filename of
        None \<Rightarrow> (book, Some FileNotFoundError)
      | Some b \<Rightarrow>
          (case pickle_load b of
             Inl e \<Rightarrow> (book, Some e)
           | Inr d \<Rightarrow> (d, None)))"

subsection \<open>Search\<close>

text \<open>
  \<^verbatim>\<open>search\<close> hands its argument to \<^verbatim>\<open>re.match\<close> as a regular expression. The
  library's function is the parameter \<open>re_match\<close>: it takes the pattern, the string and
  whether the flag \<^verbatim>\<open>re.IGNORECASE\<close> is given, and either raises or tells whether the
  pattern matches at the start of the string.
\<close>

type_synonym matcher = "string \<Rightarrow> string \<Rightarrow> bool \<Rightarrow> error + bool"

definition lower_char :: "char \<Rightarrow> char" where
  "lower_char c =
     (let n = (of_char c :: nat)
      in if (65 \<le> n \<and> n \<le> 90) \<or> (192 \<le> n \<and> n \<le> 222 \<and> n \<noteq> 215) then char_of (n + 32) else c)"

definition lower :: "string \<Rightarrow> string" where
  "lower s = map lower_char s"

text \<open>The loops of \<^verbatim>\<open>search\<close>; each returns what it appends to \<^verbatim>\<open>found_recs\<close>.\<close>

fun search_phones :: "matcher \<Rightarrow> string \<Rightarrow> Record \<Rightarrow> string list \<Rightarrow> error + Record list" where
  "search_phones re_match pattern contact [] = Inr []"
| "search_phones re_match pattern contact (phone # rest) =
     (case re_match pattern phone False of
        Inl e \<Rightarrow> Inl e
      | Inr m \<Rightarrow>
          (case search_phones re_match pattern contact rest of
             Inl e \<Rightarrow> Inl e
           | Inr found \<Rightarrow> Inr ((if m then [contact] else []) @ found)))"

fun search_numeric :: "matcher \<Rightarrow> string \<Rightarrow> Record list \<Rightarrow> error + Record list" where
  "search_numeric re_match pattern [] = Inr []"
| "search_numeric re_match pattern (contact # rest) =
     (case search_phones re_match pattern contact (phones contact) of
        Inl e \<Rightarrow> Inl e
      | Inr here \<Rightarrow>
          (case search_numeric re_match pattern rest of
             Inl e \<Rightarrow> Inl e
           | Inr found \<Rightarrow> Inr (here @ found)))"

fun search_names :: "matcher \<Rightarrow> string \<Rightarrow> Record list \<Rightarrow> error + Record list" where
  "search_names re_match pattern [] = Inr []"
| "search_names re_match pattern (contact # rest) =
     (case re_match pattern (name contact) True of
        Inl e \<Rightarrow> Inl e
      | Inr m \<Rightarrow>
          (case search_names re_match pattern rest of
             Inl e \<Rightarrow> Inl e
           | Inr found \<Rightarrow> Inr ((if m then [contact] else []) @ found)))"

definition search :: "matcher \<Rightarrow> AddressBook \<Rightarrow> string \<Rightarrow> error + Record list" where
  "search re_match book pattern =
     (if isnumeric pattern then search_numeric re_match pattern (dict_values book)
      else search_names re_match pattern (dict_values book))"

subsection \<open>The normal form of a phone number in the words of the specification\<close>

definition spec_normalize :: "string \<Rightarrow> string" where
  \<comment> \<open>One leading plus sign removed, then every parenthesis and hyphen removed.\<close>
  "spec_normalize s =
     filter (\<lambda>c. c \<noteq> CHR ''('' \<and> c \<noteq> CHR '')'' \<and> c \<noteq> CHR ''-'')
       (case s of [] \<Rightarrow> [] | c # t \<Rightarrow> if c = CHR ''+'' then t else c # t)"

section \<open>Properties\<close>

subsection \<open>Phone numbers\<close>

lemma isdecimal_char_not_space: "isdecimal_char c \<Longrightarrow> \<not> isspace_char c"
  by (auto simp: isdecimal_char_def isspace_char_def Let_def)

lemma isdecimal_char_not_punct:
  "isdecimal_char c \<Longrightarrow> c \<noteq> CHR ''('' \<and> c \<noteq> CHR '')'' \<and> c \<noteq> CHR ''-'' \<and> c \<noteq> CHR ''+''"
  by (auto simp: isdecimal_char_def Let_def)

lemma dropWhile_none: "\<forall>c \<in> set s. \<not> P c \<Longrightarrow> dropWhile P s = s"
  by (cases s) auto

lemma strip_no_space: "\<forall>c \<in> set s. \<not> isspace_char c \<Longrightarrow> strip s = s"
proof -
  assume h: "\<forall>c \<in> set s. \<not> isspace_char c"
  then have "dropWhile isspace_char s = s"
    by (rule dropWhile_none)
  moreover from h have "dropWhile isspace_char (rev s) = rev s"
    by (intro dropWhile_none) simp
  ultimately show ?thesis
    by (simp add: strip_def)
qed

lemma strip_digits: "list_all isdecimal_char d \<Longrightarrow> strip d = d"
  by (rule strip_no_space) (simp add: list_all_iff isdecimal_char_not_space)

lemma strip_plus_digits: "list_all isdecimal_char d \<Longrightarrow> strip (CHR ''+'' # d) = CHR ''+'' # d"
proof (rule strip_no_space)
  assume d: "list_all isdecimal_char d"
  have plus: "\<not> isspace_char CHR ''+''"
    by (simp add: isspace_char_def)
  show "\<forall>c \<in> set (CHR ''+'' # d). \<not> isspace_char c"
    using d plus by (simp add: list_all_iff isdecimal_char_not_space)
qed

lemma replace_char_absent: "old \<notin> set s \<Longrightarrow> replace_char old new s = s"
  by (induction s) (auto simp: replace_char_def)

lemma removeprefix_plus: "removeprefix ''+'' (CHR ''+'' # d) = d"
  by (simp add: removeprefix_def)

lemma removeprefix_digits: "list_all isdecimal_char d \<Longrightarrow> removeprefix ''+'' d = d"
  by (cases d) (auto simp: removeprefix_def dest: isdecimal_char_not_punct)

lemma digits_no_punct:
  "list_all isdecimal_char d \<Longrightarrow>
     CHR ''('' \<notin> set d \<and> CHR '')'' \<notin> set d \<and> CHR ''-'' \<notin> set d"
  using isdecimal_char_not_punct by (auto simp: list_all_iff)

lemma new_phone_digits: "list_all isdecimal_char d \<Longrightarrow> new_phone d = d"
  by (simp add: new_phone_def strip_digits removeprefix_digits replace_char_absent digits_no_punct)

lemma new_phone_plus_digits: "list_all isdecimal_char d \<Longrightarrow> new_phone (CHR ''+'' # d) = d"
  by (simp add: new_phone_def strip_plus_digits removeprefix_plus replace_char_absent digits_no_punct)

lemma replace_char_filter: "replace_char old [] s = filter (\<lambda>c. c \<noteq> old) s"
  by (induction s) (simp_all add: replace_char_def)

lemma removeprefix_plus_cases:
  "removeprefix ''+'' s = (case s of [] \<Rightarrow> [] | c # t \<Rightarrow> if c = CHR ''+'' then t else c # t)"
  by (cases s) (simp_all add: removeprefix_def)

lemma new_phone_spec_normalize: "new_phone v = spec_normalize (strip v)"
  unfolding new_phone_def spec_normalize_def replace_char_filter removeprefix_plus_cases
  by (simp add: conj_ac cong: filter_cong)

text \<open>
  Claim C8, as the code has it. Setting a phone's value first strips the white space
  around the input; the normal form is what is left after one leading plus sign and
  every parenthesis and hyphen are removed. For every input the setter stores the normal
  form when it is not empty, holds decimal digits only and has 5 to 17 characters, and
  raises \<^verbatim>\<open>TypeError\<close> otherwise. For every string \<open>d1\<close> of decimal digits with 5 to
  17 characters, a plus sign followed by \<open>d1\<close> stores exactly \<open>d1\<close>; for every string
  \<open>d2\<close> of decimal digits with fewer than 5 or more than 17 characters, \<open>d2\<close> raises,
  with or without a leading plus sign.
\<close>

theorem phone_value_normal_form:
  "phone_value v =
     (let n = spec_normalize (strip v)
      in if n \<noteq> [] \<and> (\<forall>c \<in> set n. isdecimal_char c) \<and> 5 \<le> length n \<and> length n \<le> 17
         then Inr n else Inl TypeError)
   \<and> (list_all isdecimal_char d1 \<and> 5 \<le> length d1 \<and> length d1 \<le> 17
      \<longrightarrow> phone_value (''+'' @ d1) = Inr d1)
   \<and> (list_all isdecimal_char d2 \<and> (length d2 < 5 \<or> 17 < length d2)
      \<longrightarrow> phone_value d2 = Inl TypeError \<and> phone_value (''+'' @ d2) = Inl TypeError)"
proof (intro conjI impI)
  show "phone_value v =
     (let n = spec_normalize (strip v)
      in if n \<noteq> [] \<and> (\<forall>c \<in> set n. isdecimal_char c) \<and> 5 \<le> length n \<and> length n \<le> 17
         then Inr n else Inl TypeError)"
    by (simp add: phone_value_def new_phone_spec_normalize isdecimal_def list_all_iff
        min_len_def max_len_def Let_def)
next
  assume h: "list_all isdecimal_char d1 \<and> 5 \<le> length d1 \<and> length d1 \<le> 17"
  then have "d1 \<noteq> []" by auto
  with h show "phone_value (''+'' @ d1) = Inr d1"
    by (simp add: phone_value_def new_phone_plus_digits isdecimal_def min_len_def max_len_def)
next
  assume h: "list_all isdecimal_char d2 \<and> (length d2 < 5 \<or> 17 < length d2)"
  then show "phone_value d2 = Inl TypeError"
    by (auto simp: phone_value_def new_phone_digits min_len_def max_len_def)
  from h show "phone_value (''+'' @ d2) = Inl TypeError"
    by (auto simp: phone_value_def new_phone_plus_digits min_len_def max_len_def)
qed

text \<open>
  An input with white space, a plus sign, parentheses and a hyphen; an input with a
  letter; an input whose normal form is empty; digit strings in and out of range.
\<close>

theorem phone_value_normal_form_witness:
  "phone_value '' +1(234)567-89 '' = Inr ''123456789''
   \<and> phone_value ''12a45'' = Inl TypeError
   \<and> phone_value ''()-'' = Inl TypeError
   \<and> phone_value ''+12345'' = Inr ''12345''
   \<and> phone_value ''1234'' = Inl TypeError \<and> phone_value ''+1234'' = Inl TypeError"
proof -
  have n1: "spec_normalize (strip '' +1(234)567-89 '') = ''123456789''"
    by code_simp
  have n2: "spec_normalize (strip ''12a45'') = ''12a45''"
    by code_simp
  have n3: "spec_normalize (strip ''()-'') = []"
    by code_simp
  have dig: "\<forall>c \<in> set ''123456789''. isdecimal_char c"
    by code_simp
  have nodig: "\<not> (\<forall>c \<in> set ''12a45''. isdecimal_char c)"
    by code_simp
  have d1: "list_all isdecimal_char ''12345'' \<and> 5 \<le> length ''12345'' \<and> length ''12345'' \<le> 17"
    by code_simp
  have d2: "list_all isdecimal_char ''1234'' \<and> (length ''1234'' < 5 \<or> 17 < length ''1234'')"
    by code_simp
  from phone_value_normal_form [of "'' +1(234)567-89 ''" "''12345''" "''1234''"] n1 dig d1 d2
  have a: "phone_value '' +1(234)567-89 '' = Inr ''123456789''
      \<and> phone_value ''+12345'' = Inr ''12345''
      \<and> phone_value ''1234'' = Inl TypeError \<and> phone_value ''+1234'' = Inl TypeError"
    by (simp add: Let_def)
  from phone_value_normal_form [of "''12a45''" "''12345''" "''1234''"] n2 nodig
  have b: "phone_value ''12a45'' = Inl TypeError"
    by (simp add: Let_def)
  from phone_value_normal_form [of "''()-''" "''12345''" "''1234''"] n3
  have c: "phone_value ''()-'' = Inl TypeError"
    by (simp add: Let_def)
  from a b c show ?thesis
    by blast
qed

text \<open>
  The input of a space and five digits is accepted, though its normal form in the words
  of the specification (which does not strip white space) holds the space, which is not
  a decimal digit.
\<close>

theorem phone_value_whitespace_counterexample:
  "phone_value '' 12345'' = Inr ''12345''
   \<and> CHR '' '' \<in> set (spec_normalize '' 12345'')
   \<and> \<not> isdecimal_char CHR '' ''"
  by code_simp

subsection \<open>Record: the birthday guard\<close>

text \<open>
  Claim C9. For every record that has a birthday, \<^verbatim>\<open>add_birthday\<close> raises (the
  exception is \<^verbatim>\<open>IndexError\<close>) and the record after the call is the record before
  it, so the stored birthday is unchanged. For every record without a birthday,
  \<^verbatim>\<open>add_birthday\<close> returns normally and the record's birthday is the given one.
\<close>

theorem add_birthday_guard:
  "(birthday r \<noteq> None \<longrightarrow> add_birthday r b = (r, Some IndexError))
   \<and> (birthday r = None \<longrightarrow> add_birthday r b = (r\<lparr>birthday := Some b\<rparr>, None))"
  by (simp add: add_birthday_def)

text \<open>The guard at a record with a birthday and at a record without one.\<close>

theorem add_birthday_guard_witness:
  "add_birthday
     \<lparr>name = ''Anna'', phones = [],
      birthday = Some \<lparr>year = 1990, month = 3, day = 1, hour = 0, minute = 0, second = 0, microsecond = 0\<rparr>,
      email = None\<rparr>
     \<lparr>year = 1991, month = 4, day = 2, hour = 0, minute = 0, second = 0, microsecond = 0\<rparr>
   = (\<lparr>name = ''Anna'', phones = [],
       birthday = Some \<lparr>year = 1990, month = 3, day = 1, hour = 0, minute = 0, second = 0, microsecond = 0\<rparr>,
       email = None\<rparr>, Some IndexError)
   \<and> add_birthday
     \<lparr>name = ''Anna'', phones = [], birthday = None, email = None\<rparr>
     \<lparr>year = 1991, month = 4, day = 2, hour = 0, minute = 0, second = 0, microsecond = 0\<rparr>
   = (\<lparr>name = ''Anna'', phones = [],
       birthday = Some \<lparr>year = 1991, month = 4, day = 2, hour = 0, minute = 0, second = 0, microsecond = 0\<rparr>,
       email = None\<rparr>, None)"
  using add_birthday_guard [of "\<lparr>name = ''Anna'', phones = [],
      birthday = Some \<lparr>year = 1990, month = 3, day = 1, hour = 0, minute = 0, second = 0, microsecond = 0\<rparr>,
      email = None\<rparr>" "\<lparr>year = 1991, month = 4, day = 2, hour = 0, minute = 0, second = 0, microsecond = 0\<rparr>"]
    add_birthday_guard [of "\<lparr>name = ''Anna'', phones = [], birthday = None, email = None\<rparr>"
      "\<lparr>year = 1991, month = 4, day = 2, hour = 0, minute = 0, second = 0, microsecond = 0\<rparr>"]
  by simp

subsection \<open>AddressBook: adding a record\<close>

lemma map_of_dict_update: "map_of (dict_update k v d) = (map_of d)(k \<mapsto> v)"
  by (induction d) (auto simp: fun_eq_iff)

lemma keys_dict_update:
  "map fst (dict_update k v d) = (if k \<in> set (map fst d) then map fst d else map fst d @ [k])"
  by (induction d) force+

lemma distinct_dict_update: "distinct (map fst d) \<Longrightarrow> distinct (map fst (dict_update k v d))"
  by (simp add: keys_dict_update)

text \<open>
  Claim C1, as the code has it. \<^verbatim>\<open>add_record\<close> has no failure: for every book and
  every record, the book after the call maps the record's name to the record and every
  other key as before. When the name was a key already, the keys and their order are as
  before (the record stored under the name is replaced); otherwise the name is a new last
  key.
\<close>

theorem add_record_replaces_or_appends:
  "map_of (add_record book r) = (map_of book)(name r \<mapsto> r)
   \<and> map fst (add_record book r)
       = (if name r \<in> set (map fst book) then map fst book else map fst book @ [name r])"
  by (simp add: add_record_def map_of_dict_update keys_dict_update)

text \<open>
  A book that holds a record under the name Ann, and a second record of that name with
  another phone: after \<^verbatim>\<open>add_record\<close> the book holds the second record, so it is not
  the book before the call.
\<close>

theorem add_record_duplicate_counterexample:
  "name (Record_init ''Ann'' (Some ''99999'') None None)
     \<in> set (map fst [(''Ann'', Record_init ''Ann'' (Some ''12345'') None None)])
   \<and> add_record [(''Ann'', Record_init ''Ann'' (Some ''12345'') None None)]
        (Record_init ''Ann'' (Some ''99999'') None None)
      = [(''Ann'', Record_init ''Ann'' (Some ''99999'') None None)]
   \<and> add_record [(''Ann'', Record_init ''Ann'' (Some ''12345'') None None)]
        (Record_init ''Ann'' (Some ''99999'') None None)
      \<noteq> [(''Ann'', Record_init ''Ann'' (Some ''12345'') None None)]"
  by (simp add: add_record_def Record_init_def)

subsection \<open>Record: rendering\<close>

lemma digit_char_0: "digit_char 0 = CHR ''0''"
  by code_simp

lemma str_nat_one_digit: "n < 10 \<Longrightarrow> str_nat n = [digit_char n]"
  by (subst str_nat.simps) simp

lemma str_nat_two_digits:
  assumes "10 \<le> n" "n < 100"
  shows "str_nat n = [digit_char (n div 10), digit_char (n mod 10)]"
proof -
  from assms have "n div 10 < 10"
    by simp
  then have "str_nat (n div 10) = [digit_char (n div 10)]"
    by (rule str_nat_one_digit)
  with assms show ?thesis
    by (subst str_nat.simps) simp
qed

lemma zero_pad_two:
  assumes "n < 100"
  shows "zero_pad 2 (str_nat n) = [digit_char (n div 10), digit_char (n mod 10)]"
proof (cases "n < 10")
  case True
  then show ?thesis
    by (simp add: str_nat_one_digit zero_pad_def digit_char_0 numeral_2_eq_2)
next
  case False
  with assms show ?thesis
    by (simp add: str_nat_two_digits zero_pad_def)
qed

lemma zero_pad_two_int:
  assumes "1 \<le> i" "i \<le> 31"
  shows "zero_pad 2 (str_int i) = [digit_char (nat i div 10), digit_char (nat i mod 10)]"
proof -
  from assms have "nat i < 100"
    by simp
  then have "zero_pad 2 (str_nat (nat i)) = [digit_char (nat i div 10), digit_char (nat i mod 10)]"
    by (rule zero_pad_two)
  with assms show ?thesis
    by (simp add: str_int_def)
qed

lemma days_in_month_le: "days_in_month y m \<le> 31"
  by (simp add: days_in_month_def)

lemma birthday_str_digits:
  assumes "check_date_fields (year b) (month b) (day b)"
  shows "birthday_str b =
     [digit_char (nat (day b) div 10), digit_char (nat (day b) mod 10), CHR ''.'',
      digit_char (nat (month b) div 10), digit_char (nat (month b) mod 10), CHR ''.'']
       @ str_nat (nat (year b))"
proof -
  from assms have d: "1 \<le> day b" "day b \<le> 31" and m: "1 \<le> month b" "month b \<le> 31"
    and y: "0 \<le> year b"
    using days_in_month_le [of "year b" "month b"] by (simp_all add: check_date_fields_def)
  from y have "str_int (year b) = str_nat (nat (year b))"
    by (simp add: str_int_def)
  then show ?thesis
    by (simp add: birthday_str_def zero_pad_two_int [OF d] zero_pad_two_int [OF m])
qed

lemma join_concat: "join sep (p # ps) = p @ concat (map (\<lambda>q. sep @ q) ps)"
  by (induction ps arbitrary: p) simp_all

text \<open>
  Claim C3, as the code has it. For every record whose birthday, if set, is a date of the
  calendar, the rendering is the name, \<^verbatim>\<open>: Phones: \<close>, the phones with a comma and a
  space between them, \<^verbatim>\<open>; E-mail:\<close>, the email, \<^verbatim>\<open>; B-day:\<close>, the birthday as two
  digits of the day, a dot, two digits of the month, a dot and the year in decimal
  without padding, then a space and a line feed. An unset email and an unset birthday
  each render as the word \<^verbatim>\<open>None\<close>; an empty phone list renders as the empty string.
\<close>

theorem record_str_format:
  "(\<forall>b. birthday r = Some b \<longrightarrow> check_date_fields (year b) (month b) (day b)) \<Longrightarrow>
   record_str r =
     name r @ '': Phones: ''
       @ (case phones r of [] \<Rightarrow> [] | p # ps \<Rightarrow> p @ concat (map (\<lambda>q. '', '' @ q) ps))
       @ ''; E-mail:'' @ (case email r of None \<Rightarrow> ''None'' | Some e \<Rightarrow> e)
       @ ''; B-day:''
       @ (case birthday r of
            None \<Rightarrow> ''None''
          | Some b \<Rightarrow>
              [digit_char (nat (day b) div 10), digit_char (nat (day b) mod 10), CHR ''.'',
               digit_char (nat (month b) div 10), digit_char (nat (month b) mod 10), CHR ''.'']
                @ str_nat (nat (year b)))
       @ '' \<newline>''"
proof -
  assume valid: "\<forall>b. birthday r = Some b \<longrightarrow> check_date_fields (year b) (month b) (day b)"
  have ph: "join '', '' (map (\<lambda>phone. phone) (phones r))
      = (case phones r of [] \<Rightarrow> [] | p # ps \<Rightarrow> p @ concat (map (\<lambda>q. '', '' @ q) ps))"
    by (cases "phones r") (simp_all only: list.map_ident join.simps(1) join_concat list.case)
  have bd: "format_field birthday_str (birthday r)
      = (case birthday r of
            None \<Rightarrow> ''None''
          | Some b \<Rightarrow>
              [digit_char (nat (day b) div 10), digit_char (nat (day b) mod 10), CHR ''.'',
               digit_char (nat (month b) div 10), digit_char (nat (month b) mod 10), CHR ''.'']
                @ str_nat (nat (year b)))"
    using valid by (cases "birthday r") (simp_all add: format_field_def birthday_str_digits)
  have em: "format_field (\<lambda>e. e) (email r) = (case email r of None \<Rightarrow> ''None'' | Some e \<Rightarrow> e)"
    by (simp add: format_field_def)
  show ?thesis
    unfolding record_str_def ph bd em by (rule refl)
qed

text \<open>
  A record with three phones, an email and a birthday; a record born in the year 999;
  the record with nothing set.
\<close>

theorem record_str_format_witness:
  "record_str \<lparr>name = ''Anna'', phones = [''12345'', ''67890'', ''55555''],
       birthday = Some \<lparr>year = 1990, month = 3, day = 2, hour = 0, minute = 0, second = 0, microsecond = 0\<rparr>,
       email = Some ''anna@mail.org''\<rparr>
     = ''Anna: Phones: 12345, 67890, 55555; E-mail:anna@mail.org; B-day:02.03.1990 \<newline>''
   \<and> record_str \<lparr>name = ''Old'', phones = [''12345''],
       birthday = Some \<lparr>year = 999, month = 11, day = 21, hour = 0, minute = 0, second = 0, microsecond = 0\<rparr>,
       email = None\<rparr>
     = ''Old: Phones: 12345; E-mail:None; B-day:21.11.999 \<newline>''
   \<and> record_str \<lparr>name = ''Ann'', phones = [], birthday = None, email = None\<rparr>
     = ''Ann: Phones: ; E-mail:None; B-day:None \<newline>''"
proof -
  let ?anna = "\<lparr>name = ''Anna'', phones = [''12345'', ''67890'', ''55555''],
       birthday = Some \<lparr>year = 1990, month = 3, day = 2, hour = 0, minute = 0, second = 0, microsecond = 0\<rparr>,
       email = Some ''anna@mail.org''\<rparr>"
  let ?old = "\<lparr>name = ''Old'', phones = [''12345''],
       birthday = Some \<lparr>year = 999, month = 11, day = 21, hour = 0, minute = 0, second = 0, microsecond = 0\<rparr>,
       email = None\<rparr>"
  let ?ann = "\<lparr>name = ''Ann'', phones = [], birthday = None, email = None\<rparr>"
  have v1: "\<forall>b. birthday ?anna = Some b \<longrightarrow> check_date_fields (year b) (month b) (day b)"
    by (simp add: check_date_fields_def days_in_month_def)
  have v2: "\<forall>b. birthday ?old = Some b \<longrightarrow> check_date_fields (year b) (month b) (day b)"
    by (simp add: check_date_fields_def days_in_month_def)
  have v3: "\<forall>b. birthday ?ann = Some b \<longrightarrow> check_date_fields (year b) (month b) (day b)"
    by simp
  have y1: "str_nat (nat 1990) = ''1990''" and y2: "str_nat (nat 999) = ''999''"
    by code_simp+
  have dg: "digit_char 0 = CHR ''0''" "digit_char 1 = CHR ''1''" "digit_char 2 = CHR ''2''"
    "digit_char 3 = CHR ''3''"
    by code_simp+
  have a: "record_str ?anna
      = ''Anna: Phones: 12345, 67890, 55555; E-mail:anna@mail.org; B-day:02.03.1990 \<newline>''"
    using record_str_format [OF v1] y1 dg by simp
  have b: "record_str ?old = ''Old: Phones: 12345; E-mail:None; B-day:21.11.999 \<newline>''"
    using record_str_format [OF v2] y2 dg by simp
  have c: "record_str ?ann = ''Ann: Phones: ; E-mail:None; B-day:None \<newline>''"
    using record_str_format [OF v3] by simp
  from a b c show ?thesis
    by (intro conjI)
qed

text \<open>
  The record named Ann without phones, email and birthday does not render with empty
  segments after \<^verbatim>\<open>E-mail:\<close> and \<^verbatim>\<open>B-day:\<close>.
\<close>

theorem record_str_unset_counterexample:
  "record_str \<lparr>name = ''Ann'', phones = [], birthday = None, email = None\<rparr>
     \<noteq> ''Ann: Phones: ; E-mail:; B-day:\<newline>''"
  by (simp add: record_str_def format_field_def)

subsection \<open>Record: phones by index\<close>

text \<open>
  Claim C4 at the index 0. On a record with three phones, \<^verbatim>\<open>edit_phone\<close> with the
  index 0 returns normally: it has removed the last phone and put the new one before the
  last of the remaining two. \<^verbatim>\<open>del_phone\<close> with the index 0 returns normally: it has
  removed the last phone and returns it.
\<close>

theorem edit_del_phone_index_zero:
  "edit_phone \<lparr>name = ''Anna'', phones = [''11111'', ''22222'', ''33333''], birthday = None, email = None\<rparr>
       ''99999'' 0
     = (\<lparr>name = ''Anna'', phones = [''11111'', ''99999'', ''22222''], birthday = None, email = None\<rparr>, None)
   \<and> del_phone \<lparr>name = ''Anna'', phones = [''11111'', ''22222'', ''33333''], birthday = None, email = None\<rparr> 0
     = (\<lparr>name = ''Anna'', phones = [''11111'', ''22222''], birthday = None, email = None\<rparr>, Inr ''33333'')"
  by (simp add: edit_phone_def del_phone_def list_pop_def list_insert_def)

text \<open>
  With an empty phone list or an index above the length both methods raise
  \<^verbatim>\<open>IndexError\<close> and leave the record as it was; with an index from 1 to the length
  \<^verbatim>\<open>edit_phone\<close> replaces the phone at that place and \<^verbatim>\<open>del_phone\<close> removes and
  returns it.
\<close>

lemma phone_index_above:
  "phones r = [] \<or> int (length (phones r)) < num \<Longrightarrow>
     edit_phone r phone_new num = (r, Some IndexError) \<and> del_phone r num = (r, Inl IndexError)"
  by (auto simp: edit_phone_def del_phone_def list_pop_def Let_def)

lemma pop_then_insert:
  "j < length xs \<Longrightarrow>
     take j (take j xs @ drop (Suc j) xs) @ x # drop j (take j xs @ drop (Suc j) xs) = xs[j := x]"
  by (simp add: upd_conv_take_nth_drop min_def)

lemma phone_index_within:
  assumes "1 \<le> num" "num \<le> int (length (phones r))"
  shows "edit_phone r phone_new num = (r\<lparr>phones := (phones r)[nat (num - 1) := phone_new]\<rparr>, None)"
    and "del_phone r num
           = (r\<lparr>phones := take (nat (num - 1)) (phones r) @ drop (nat num) (phones r)\<rparr>,
              Inr (phones r ! nat (num - 1)))"
proof -
  from assms have j: "nat (num - 1) < length (phones r)" and ne: "phones r \<noteq> []"
    by auto
  from assms have pop: "list_pop (phones r) (num - 1)
      = (take (nat (num - 1)) (phones r) @ drop (Suc (nat (num - 1))) (phones r),
         Inr (phones r ! nat (num - 1)))"
    by (auto simp: list_pop_def Let_def)
  from assms j have ins: "list_insert (take (nat (num - 1)) (phones r) @ drop (Suc (nat (num - 1))) (phones r))
      (num - 1) phone_new = (phones r)[nat (num - 1) := phone_new]"
    unfolding list_insert_def Let_def
    using pop_then_insert [OF j, of phone_new]
    by (simp add: min_def) 
  show "edit_phone r phone_new num = (r\<lparr>phones := (phones r)[nat (num - 1) := phone_new]\<rparr>, None)"
    using ne pop ins by (simp add: edit_phone_def)
  from assms have "Suc (nat (num - 1)) = nat num"
    by simp
  then show "del_phone r num
           = (r\<lparr>phones := take (nat (num - 1)) (phones r) @ drop (nat num) (phones r)\<rparr>,
              Inr (phones r ! nat (num - 1)))"
    using ne pop by (simp add: del_phone_def)
qed

subsection \<open>Record: days to the birthday\<close>

text \<open>
  On the day and month of the birthday the difference to the clock reading is never
  positive, so the method returns the sentinel at every time of day.
\<close>

lemma timedelta_days_nonpos:
  assumes "ss \<le> 0" "us \<le> 0"
  shows "timedelta_days 0 ss us \<le> 0"
proof -
  from assms have "ss * 1000000 + us \<le> 0"
    by simp
  then have "(ss * 1000000 + us) div 86400000000 \<le> 0"
    by (rule div_nonpos_pos_le0) simp
  then show ?thesis
    by (simp add: timedelta_days_def)
qed

lemma days_to_birthday_same_day:
  assumes b: "birthday r = Some b"
    and same: "month b = month today" "day b = day today"
    and valid: "check_date_fields (year today) (month today) (day today)"
    and midnight: "hour b = 0" "minute b = 0" "second b = 0" "microsecond b = 0"
    and clock: "0 \<le> hour today" "0 \<le> minute today" "0 \<le> second today" "0 \<le> microsecond today"
  shows "days_to_birthday today r = Inr ''It is TODAY!!!''"
proof -
  let ?compare = "b\<lparr>year := year today\<rparr>"
  from same valid have rep: "replace_year b (year today) = Inr ?compare"
    by (simp add: replace_year_def)
  from same have ord: "toordinal ?compare - toordinal today = 0"
    by (simp add: toordinal_def)
  from clock have "- (second today + minute today * 60 + hour today * 3600) \<le> 0"
    and "- microsecond today \<le> 0"
    by simp_all
  then have "timedelta_days 0 (- (second today + minute today * 60 + hour today * 3600))
      (- microsecond today) \<le> 0"
    by (rule timedelta_days_nonpos)
  with ord midnight have "sub_days ?compare today \<le> 0"
    by (simp add: sub_days_def)
  then have "\<not> 0 < sub_days ?compare today"
    by simp
  with b rep same show ?thesis
    by (simp add: days_to_birthday_def)
qed

text \<open>
  Claim C2 on the 1st of March 2024 with the stored birthday 02.03.1990. At ten in the
  morning \<^verbatim>\<open>days_to_birthday\<close> returns a count of 365 days; at midnight it returns a
  count of 1 day.
\<close>

theorem days_to_birthday_time_of_day:
  "days_to_birthday \<lparr>year = 2024, month = 3, day = 1, hour = 10, minute = 0, second = 0, microsecond = 0\<rparr>
     \<lparr>name = ''Anna'', phones = [],
      birthday = Some \<lparr>year = 1990, month = 3, day = 2, hour = 0, minute = 0, second = 0, microsecond = 0\<rparr>,
      email = None\<rparr>
     = Inr ''365 days to birthday''
   \<and> days_to_birthday \<lparr>year = 2024, month = 3, day = 1, hour = 0, minute = 0, second = 0, microsecond = 0\<rparr>
     \<lparr>name = ''Anna'', phones = [],
      birthday = Some \<lparr>year = 1990, month = 3, day = 2, hour = 0, minute = 0, second = 0, microsecond = 0\<rparr>,
      email = None\<rparr>
     = Inr ''1 days to birthday''"
  by code_simp

lemma replace_year_feb29: "month b = 2 \<Longrightarrow> day b = 29 \<Longrightarrow> \<not> is_leap y \<Longrightarrow> replace_year b y = Inl ValueError"
  by (simp add: replace_year_def check_date_fields_def days_in_month_def)

text \<open>
  Claim C10. For every record whose birthday falls on the 29th of February and every
  clock reading in a year that is not a leap year, \<^verbatim>\<open>days_to_birthday\<close> raises
  \<^verbatim>\<open>ValueError\<close> (from moving the birthday into the current year): it returns neither a
  count nor a sentinel.
\<close>

theorem days_to_birthday_feb29_raises:
  "birthday r = Some b \<and> month b = 2 \<and> day b = 29 \<and> \<not> is_leap (year today)
     \<longrightarrow> days_to_birthday today r = Inl ValueError"
  by (simp add: days_to_birthday_def replace_year_feb29)

text \<open>A record born on 29.02.2000, asked on the 15th of June 2023.\<close>

theorem days_to_birthday_feb29_raises_witness:
  "days_to_birthday \<lparr>year = 2023, month = 6, day = 15, hour = 12, minute = 30, second = 0, microsecond = 0\<rparr>
     \<lparr>name = ''Anna'', phones = [],
      birthday = Some \<lparr>year = 2000, month = 2, day = 29, hour = 0, minute = 0, second = 0, microsecond = 0\<rparr>,
      email = None\<rparr>
     = Inl ValueError"
  using days_to_birthday_feb29_raises
    [of "\<lparr>name = ''Anna'', phones = [],
      birthday = Some \<lparr>year = 2000, month = 2, day = 29, hour = 0, minute = 0, second = 0, microsecond = 0\<rparr>,
      email = None\<rparr>"
     "\<lparr>year = 2000, month = 2, day = 29, hour = 0, minute = 0, second = 0, microsecond = 0\<rparr>"
     "\<lparr>year = 2023, month = 6, day = 15, hour = 12, minute = 30, second = 0, microsecond = 0\<rparr>"]
  by (simp add: is_leap_def)

subsection \<open>AddressBook: search\<close>

text \<open>
  When the library's match of the pattern is the test for a prefix, as it is for a
  pattern of letters and digits, \<^verbatim>\<open>search\<close> returns for a numeric pattern each record
  once for each of its phones that starts with the pattern, and for any other pattern
  the records whose name starts with the pattern when both are put in lower case, in
  the order of the book.
\<close>

lemma search_phones_prefix:
  "\<forall>s. re_match pattern s False = Inr (prefix pattern s) \<Longrightarrow>
     search_phones re_match pattern contact phs
       = Inr (replicate (length (filter (prefix pattern) phs)) contact)"
  by (induction phs) simp_all

lemma search_numeric_prefix:
  "\<forall>s. re_match pattern s False = Inr (prefix pattern s) \<Longrightarrow>
     search_numeric re_match pattern contacts
       = Inr (concat (map (\<lambda>contact.
                replicate (length (filter (prefix pattern) (phones contact))) contact) contacts))"
  by (induction contacts) (simp_all add: search_phones_prefix)

lemma search_names_prefix:
  "\<forall>s. re_match pattern s True = Inr (prefix (lower pattern) (lower s)) \<Longrightarrow>
     search_names re_match pattern contacts
       = Inr (filter (\<lambda>contact. prefix (lower pattern) (lower (name contact))) contacts)"
  by (induction contacts) simp_all

lemma search_when_match_is_prefix:
  "\<forall>s. re_match pattern s False = Inr (prefix pattern s) \<Longrightarrow>
   \<forall>s. re_match pattern s True = Inr (prefix (lower pattern) (lower s)) \<Longrightarrow>
     search re_match book pattern
       = Inr (if isnumeric pattern
              then concat (map (\<lambda>contact.
                     replicate (length (filter (prefix pattern) (phones contact))) contact)
                     (dict_values book))
              else filter (\<lambda>contact. prefix (lower pattern) (lower (name contact)))
                     (dict_values book))"
  by (simp add: search_def search_numeric_prefix search_names_prefix)

text \<open>
  Claim C5 at the patterns \<^verbatim>\<open>.nna\<close> and \<^verbatim>\<open>+380\<close>, on the book that holds Anna. The
  library matches \<^verbatim>\<open>.nna\<close> against \<^verbatim>\<open>Anna\<close> (the dot stands for any character), and
  then \<^verbatim>\<open>search\<close> returns Anna, whose name does not start with the pattern in any case
  of the letters. The library raises \<^verbatim>\<open>re.error\<close> for \<^verbatim>\<open>+380\<close> (nothing to repeat),
  and then \<^verbatim>\<open>search\<close> raises it.
\<close>

theorem search_pattern_as_regex:
  "(re_match ''.nna'' ''Anna'' True = Inr True \<longrightarrow>
      search re_match
        [(''Anna'', \<lparr>name = ''Anna'', phones = [''1234567''], birthday = None, email = None\<rparr>)] ''.nna''
      = Inr [\<lparr>name = ''Anna'', phones = [''1234567''], birthday = None, email = None\<rparr>])
   \<and> \<not> prefix (lower ''.nna'') (lower ''Anna'')
   \<and> (re_match ''+380'' ''Anna'' True = Inl ReError \<longrightarrow>
      search re_match
        [(''Anna'', \<lparr>name = ''Anna'', phones = [''1234567''], birthday = None, email = None\<rparr>)] ''+380''
      = Inl ReError)"
proof (intro conjI impI)
  have n1: "\<not> isnumeric ''.nna''" and n2: "\<not> isnumeric ''+380''"
    by code_simp+
  {
    assume "re_match ''.nna'' ''Anna'' True = Inr True"
    with n1 show "search re_match
        [(''Anna'', \<lparr>name = ''Anna'', phones = [''1234567''], birthday = None, email = None\<rparr>)] ''.nna''
      = Inr [\<lparr>name = ''Anna'', phones = [''1234567''], birthday = None, email = None\<rparr>]"
      by (simp add: search_def dict_values_def)
  }
  show "\<not> prefix (lower ''.nna'') (lower ''Anna'')"
    by code_simp
  {
    assume "re_match ''+380'' ''Anna'' True = Inl ReError"
    with n2 show "search re_match
        [(''Anna'', \<lparr>name = ''Anna'', phones = [''1234567''], birthday = None, email = None\<rparr>)] ''+380''
      = Inl ReError"
      by (simp add: search_def dict_values_def)
  }
qed

text \<open>A matcher that answers the two calls as the library does.\<close>

theorem search_pattern_as_regex_witness:
  "search (\<lambda>pattern s ignorecase. if pattern = ''+380'' then Inl ReError
                                   else Inr (pattern = ''.nna'' \<and> s = ''Anna''))
        [(''Anna'', \<lparr>name = ''Anna'', phones = [''1234567''], birthday = None, email = None\<rparr>)] ''.nna''
      = Inr [\<lparr>name = ''Anna'', phones = [''1234567''], birthday = None, email = None\<rparr>]
   \<and> search (\<lambda>pattern s ignorecase. if pattern = ''+380'' then Inl ReError
                                   else Inr (pattern = ''.nna'' \<and> s = ''Anna''))
        [(''Anna'', \<lparr>name = ''Anna'', phones = [''1234567''], birthday = None, email = None\<rparr>)] ''+380''
      = Inl ReError"
  using search_pattern_as_regex
    [of "\<lambda>pattern s ignorecase. if pattern = ''+380'' then Inl ReError
                                   else Inr (pattern = ''.nna'' \<and> s = ''Anna'')"]
  by simp

subsection \<open>AddressBook: pages\<close>

lemma record_str_nonempty: "record_str r \<noteq> []"
  by (simp add: record_str_def)

lemma concat_record_str_empty: "concat (map record_str sl) = [] \<longleftrightarrow> sl = []"
  by (cases sl) (simp_all add: record_str_nonempty)

lemma islice_page:
  assumes "0 \<le> start" "0 < page" "start + page \<le> maxsize"
  shows "islice xs start (start + page) = Inr (take (nat page) (drop (nat start) xs))"
proof -
  from assms have "nat (start + page) - nat start = nat page"
    by linarith
  with assms show ?thesis
    by (simp add: islice_def)
qed

lemma ceil_div_int:
  fixes a p :: int
  assumes "0 < p"
  shows "(a + p - 1) div p = - ((- a) div p)"
proof -
  have split: "a + p - 1 = (a mod p + p - 1) + (a div p) * p"
    by (simp add: algebra_simps)
  have "(a + p - 1) div p = (a mod p + p - 1) div p + a div p"
    using assms by (subst split) (simp only: div_mult_self1 [of p] div_add_self2 div_mult_self3 div_mult_self4)
  moreover have "(a mod p + p - 1) div p = (if a mod p = 0 then 0 else 1)"
  proof (cases "a mod p = 0")
    case True
    with assms show ?thesis by (simp add: div_pos_pos_trivial)
  next
    case False
    from assms have "0 \<le> a mod p" "a mod p < p"
      by simp_all
    with False have r: "0 < a mod p" "a mod p < p"
      by linarith+
    from assms have nz: "p \<noteq> 0"
      by simp
    have "(a mod p + p - 1) div p = ((a mod p - 1) + p) div p"
      by (simp add: algebra_simps)
    also have "\<dots> = (a mod p - 1) div p + 1"
      using nz by (rule div_add_self2)
    also from r have "(a mod p - 1) div p = 0"
      by (simp add: div_pos_pos_trivial)
    finally show ?thesis
      using False by simp
  qed
  moreover from assms have "(- a) div p = (if a mod p = 0 then - (a div p) else - (a div p) - 1)"
    by (simp add: zdiv_zminus1_eq_if)
  ultimately show ?thesis
    by simp
qed

lemma ceiling_pages:
  fixes page :: int
  assumes "0 < page"
  shows "(int n + page - 1) div page = \<lceil>real n / real_of_int page\<rceil>"
proof -
  have "\<lceil>real n / real_of_int page\<rceil> = \<lceil>real_of_int (int n) / real_of_int page\<rceil>"
    by simp
  also have "\<dots> = - ((- int n) div page)"
    by (rule ceiling_divide_eq_div)
  also have "\<dots> = (int n + page - 1) div page"
    using ceil_div_int [OF assms, of "int n"] by simp
  finally show ?thesis by simp
qed

lemma pages_count_step:
  fixes n start page :: int
  assumes "0 < page" "start < n"
  shows "1 + (max 0 (n - (start + page)) + page - 1) div page = (max 0 (n - start) + page - 1) div page"
proof -
  define k where "k = n - start"
  from assms have k: "0 < k" and nz: "page \<noteq> 0"
    by (simp_all add: k_def)
  have m2: "max 0 (n - start) = k"
    using k by (simp add: k_def max_def)
  have "(k + page - 1) div page = ((k - 1) + page) div page"
    by (simp add: algebra_simps)
  also have "\<dots> = (k - 1) div page + 1"
    using nz by (rule div_add_self2)
  finally have right: "(k + page - 1) div page = (k - 1) div page + 1" .
  show ?thesis
  proof (cases "page \<le> k")
    case True
    then have m1: "max 0 (n - (start + page)) = k - page"
      by (simp add: k_def max_def)
    have "k - page + page - 1 = k - 1"
      by simp
    then show ?thesis
      unfolding m1 m2 right by simp
  next
    case False
    then have m1: "max 0 (n - (start + page)) = 0"
      by (simp add: k_def max_def)
    from False k assms have "(k - 1) div page = 0" "(page - 1) div page = 0"
      by (simp_all add: div_pos_pos_trivial)
    then show ?thesis
      unfolding m1 m2 right by simp
  qed
qed

lemma pages_count_nonneg:
  fixes n start page :: int
  assumes "0 < page"
  shows "0 \<le> (max 0 (n - start) + page - 1) div page"
proof -
  from assms have "0 \<le> max 0 (n - start) + page - 1"
    by simp
  with assms show ?thesis
    by (simp only: pos_imp_zdiv_nonneg_iff)
qed

lemma iterator_from_exact:
  "0 < page \<Longrightarrow> 0 \<le> start \<Longrightarrow>
   start + ((max 0 (int (length book) - start) + page - 1) div page + 1) * page \<le> maxsize \<Longrightarrow>
     iterator_from book page start
       = (map (\<lambda>j. concat (map record_str
                     (take (nat page) (drop (nat start + j * nat page) (dict_values book)))))
            [0..<nat ((max 0 (int (length book) - start) + page - 1) div page)]
          @ [total book], None)"
proof (induction book page start rule: iterator_from.induct)
  case (1 book page start)
  let ?vals = "dict_values book"
  let ?cnt = "\<lambda>s. (max 0 (int (length book) - s) + page - 1) div page"
  let ?R = "\<lambda>s. concat (map record_str (take (nat page) (drop s ?vals)))"
  let ?sl = "take (nat page) (drop (nat start) ?vals)"
  have page: "0 < page" and start: "0 \<le> start"
    and bound: "start + (?cnt start + 1) * page \<le> maxsize"
    using "1.prems" by simp_all
  have cnt0: "0 \<le> ?cnt start"
    using page by (rule pages_count_nonneg)
  then have "0 \<le> ?cnt start * page"
    using page by simp
  then have "start + page \<le> start + (?cnt start + 1) * page"
    by (simp add: algebra_simps)
  with bound have stop: "start + page \<le> maxsize"
    by linarith
  from start page stop have sl: "islice ?vals start (start + page) = Inr ?sl"
    by (rule islice_page)
  show ?case
  proof (cases "?sl = []")
    case True
    with page have "drop (nat start) ?vals = []"
      by (simp add: take_eq_Nil)
    then have "int (length book) \<le> start"
      using start by (simp add: dict_values_def)
    then have "?cnt start = 0"
      using page by (simp add: div_pos_pos_trivial)
    moreover have "iterator_from book page start = ([total book], None)"
      using sl True by (subst iterator_from.simps) simp
    ultimately show ?thesis
      by simp
  next
    case False
    then have out: "concat (map record_str ?sl) \<noteq> []"
      by (simp only: concat_record_str_empty) simp
    from False have lt: "start < int (length book)"
      using start by (auto simp: dict_values_def)
    have step: "1 + ?cnt (start + page) = ?cnt start"
      using page lt by (rule pages_count_step)
    have cnt1: "0 \<le> ?cnt (start + page)"
      using page by (rule pages_count_nonneg)
    from step have "start + page + (?cnt (start + page) + 1) * page = start + (?cnt start + 1) * page"
      by (simp add: algebra_simps)
    with bound have bound': "start + page + (?cnt (start + page) + 1) * page \<le> maxsize"
      by simp
    from start page have start': "0 \<le> start + page"
      by simp
    have rest: "iterator_from book page (start + page)
        = (map (\<lambda>j. ?R (nat (start + page) + j * nat page)) [0..<nat (?cnt (start + page))]
           @ [total book], None)"
      using "1.IH" [OF sl refl out page start' bound'] .
    have run: "iterator_from book page start
        = (?R (nat start) # map (\<lambda>j. ?R (nat (start + page) + j * nat page))
                               [0..<nat (?cnt (start + page))] @ [total book], None)"
      using sl out rest by (subst iterator_from.simps) (simp add: Let_def)
    from step cnt1 have suc: "nat (?cnt start) = Suc (nat (?cnt (start + page)))"
      by linarith
    from start page have shift: "\<And>j. nat (start + page) + j * nat page = nat start + Suc j * nat page"
      by (simp add: nat_add_distrib)
    have "map (\<lambda>j. ?R (nat start + j * nat page)) [0..<nat (?cnt start)]
        = ?R (nat start) # map (\<lambda>j. ?R (nat (start + page) + j * nat page))
                               [0..<nat (?cnt (start + page))]"
      unfolding suc map_upt_Suc shift by simp
    with run show ?thesis
      by simp
  qed
qed

lemma concat_pages:
  "0 < p \<Longrightarrow> length xs \<le> s + c * p \<Longrightarrow>
     concat (map (\<lambda>j. concat (map f (take p (drop (s + j * p) xs)))) [0..<c])
       = concat (map f (drop s xs))"
proof (induction c arbitrary: s)
  case 0
  then show ?case by simp
next
  case (Suc c)
  from Suc.prems have "length xs \<le> (s + p) + c * p"
    by simp
  with Suc.prems(1)
  have ih: "concat (map (\<lambda>j. concat (map f (take p (drop (s + p + j * p) xs)))) [0..<c])
      = concat (map f (drop (s + p) xs))"
    by (rule Suc.IH)
  have sh: "\<And>j. s + Suc j * p = s + p + j * p"
    by simp
  have "concat (map (\<lambda>j. concat (map f (take p (drop (s + j * p) xs)))) [0..<Suc c])
      = concat (map f (take p (drop s xs)))
        @ concat (map (\<lambda>j. concat (map f (take p (drop (s + p + j * p) xs)))) [0..<c])"
    unfolding map_upt_Suc sh by simp
  also have "\<dots> = concat (map f (take p (drop s xs))) @ concat (map f (drop p (drop s xs)))"
    unfolding ih by (simp add: add.commute)
  also have "\<dots> = concat (map f (take p (drop s xs) @ drop p (drop s xs)))"
    by simp
  also have "\<dots> = concat (map f (drop s xs))"
    by (simp only: append_take_drop_id)
  finally show ?case .
qed

lemma pages_cover:
  fixes page :: int
  assumes "0 < page"
  shows "n \<le> nat ((int n + page - 1) div page) * nat page"
proof -
  let ?a = "int n + page - 1"
  from assms have m: "?a mod page \<le> page - 1"
    using pos_mod_bound [of page ?a] by linarith
  have "?a div page * page = ?a - ?a mod page"
    by (simp add: minus_mod_eq_div_mult)
  with m have ge: "int n \<le> ?a div page * page"
    by linarith
  from assms have nn: "0 \<le> ?a div page"
    by (simp add: pos_imp_zdiv_nonneg_iff)
  with assms have "int (nat (?a div page) * nat page) = ?a div page * page"
    by simp
  with ge show ?thesis
    by linarith
qed

text \<open>
  Claim C6, as the code has it. For every book of n records and every page size p above
  0 for which p times the number of content pages plus one is at most
  \<^verbatim>\<open>sys.maxsize\<close>, \<^verbatim>\<open>iterator\<close> ends without an exception and yields the ceiling of
  n / p content pages, of which page k (from 0) is the renderings of the records
  k * p to k * p + p - 1 in the order of the book, followed by exactly one summary page
  \<^verbatim>\<open>Total: n contacts.\<close>; the content pages concatenated are the renderings of all
  records in the order of the book; for the empty book the summary page is all that is
  yielded.
\<close>

theorem iterator_pages:
  "0 < page \<Longrightarrow>
   (\<lceil>real (length book) / real_of_int page\<rceil> + 1) * page \<le> maxsize \<Longrightarrow>
     iterator book page
       = (map (\<lambda>k. concat (map record_str
                     (take (nat page) (drop (k * nat page) (dict_values book)))))
            [0..<nat \<lceil>real (length book) / real_of_int page\<rceil>]
          @ [''Total: '' @ str_nat (length book) @ '' contacts.''], None)
     \<and> concat (map (\<lambda>k. concat (map record_str
                     (take (nat page) (drop (k * nat page) (dict_values book)))))
            [0..<nat \<lceil>real (length book) / real_of_int page\<rceil>])
         = concat (map record_str (dict_values book))
     \<and> (book = [] \<longrightarrow> iterator book page = ([''Total: 0 contacts.''], None))"
proof -
  assume page: "0 < page"
    and bound: "(\<lceil>real (length book) / real_of_int page\<rceil> + 1) * page \<le> maxsize"
  let ?c = "\<lceil>real (length book) / real_of_int page\<rceil>"
  have c: "(max 0 (int (length book) - 0) + page - 1) div page = ?c"
    using ceiling_pages [OF page, of "length book"] by simp
  from bound have "0 + ((max 0 (int (length book) - 0) + page - 1) div page + 1) * page \<le> maxsize"
    unfolding c by simp
  from iterator_from_exact [OF page order_refl this]
  have exact: "iterator book page
       = (map (\<lambda>k. concat (map record_str
                     (take (nat page) (drop (k * nat page) (dict_values book)))))
            [0..<nat ?c]
          @ [''Total: '' @ str_nat (length book) @ '' contacts.''], None)"
    unfolding c by (simp add: iterator_def total_def)
  from page have p: "0 < nat page"
    by simp
  have "length (dict_values book) \<le> 0 + nat ?c * nat page"
    using pages_cover [OF page, of "length book"] ceiling_pages [OF page, of "length book"]
    by (simp add: dict_values_def)
  from concat_pages [OF p this, of record_str]
  have cat: "concat (map (\<lambda>k. concat (map record_str
                     (take (nat page) (drop (k * nat page) (dict_values book)))))
            [0..<nat ?c])
         = concat (map record_str (dict_values book))"
    by simp
  have zero: "str_nat 0 = ''0''"
    by code_simp
  have empty: "book = [] \<longrightarrow> iterator book page = ([''Total: 0 contacts.''], None)"
  proof
    assume e: "book = []"
    with exact zero show "iterator book page = ([''Total: 0 contacts.''], None)"
      by simp
  qed
  from exact cat empty show ?thesis
    by (intro conjI)
qed

text \<open>Three records in pages of two, and the empty book.\<close>

theorem iterator_pages_witness:
  "iterator
       [(''Anna'', \<lparr>name = ''Anna'', phones = [''1234567''], birthday = None, email = None\<rparr>),
        (''Ann'', \<lparr>name = ''Ann'', phones = [], birthday = None, email = None\<rparr>),
        (''Bob'', \<lparr>name = ''Bob'', phones = [], birthday = None, email = None\<rparr>)] 2
     = ([''Anna: Phones: 1234567; E-mail:None; B-day:None \<newline>Ann: Phones: ; E-mail:None; B-day:None \<newline>'',
         ''Bob: Phones: ; E-mail:None; B-day:None \<newline>'',
         ''Total: 3 contacts.''], None)
   \<and> iterator [] 2 = ([''Total: 0 contacts.''], None)"
proof -
  let ?book = "[(''Anna'', \<lparr>name = ''Anna'', phones = [''1234567''], birthday = None, email = None\<rparr>),
        (''Ann'', \<lparr>name = ''Ann'', phones = [], birthday = None, email = None\<rparr>),
        (''Bob'', \<lparr>name = ''Bob'', phones = [], birthday = None, email = None\<rparr>)]"
  have pos: "(0::int) < 2"
    by simp
  have c3: "\<lceil>real (length ?book) / real_of_int 2\<rceil> = 2"
    by simp
  have c0: "\<lceil>real (length ([] :: AddressBook)) / real_of_int 2\<rceil> = 0"
    by simp
  have b3: "(\<lceil>real (length ?book) / real_of_int 2\<rceil> + 1) * 2 \<le> maxsize"
    unfolding c3 by (simp add: maxsize_def)
  have b0: "(\<lceil>real (length ([] :: AddressBook)) / real_of_int 2\<rceil> + 1) * 2 \<le> maxsize"
    unfolding c0 by (simp add: maxsize_def)
  have pages: "map (\<lambda>k. concat (map record_str (take (nat 2) (drop (k * nat 2) (dict_values ?book)))))
            [0..<nat 2]
        = [''Anna: Phones: 1234567; E-mail:None; B-day:None \<newline>Ann: Phones: ; E-mail:None; B-day:None \<newline>'',
           ''Bob: Phones: ; E-mail:None; B-day:None \<newline>'']"
    by code_simp
  have three: "str_nat (length ?book) = ''3''"
    by code_simp
  from iterator_pages [OF pos b3]
  have "iterator ?book 2
       = (map (\<lambda>k. concat (map record_str (take (nat 2) (drop (k * nat 2) (dict_values ?book)))))
            [0..<nat \<lceil>real (length ?book) / real_of_int 2\<rceil>]
          @ [''Total: '' @ str_nat (length ?book) @ '' contacts.''], None)"
    by (rule conjunct1)
  then have a: "iterator ?book 2
     = ([''Anna: Phones: 1234567; E-mail:None; B-day:None \<newline>Ann: Phones: ; E-mail:None; B-day:None \<newline>'',
         ''Bob: Phones: ; E-mail:None; B-day:None \<newline>'',
         ''Total: 3 contacts.''], None)"
    unfolding c3 pages three by simp
  from iterator_pages [OF pos b0]
  have b: "iterator [] 2 = ([''Total: 0 contacts.''], None)"
    by blast
  from a b show ?thesis
    by (rule conjI)
qed

text \<open>
  With the page size \<open>2 ^ 63\<close> the first slice raises \<^verbatim>\<open>ValueError\<close>: on the empty
  book nothing is yielded, not even the summary page.
\<close>

theorem iterator_page_size_counterexample:
  "iterator [] 9223372036854775808 = ([], Some ValueError)"
  by code_simp

subsection \<open>AddressBook: saving and loading\<close>

text \<open>
  Claim C7. For every book S, every file name and every state of the files, loading the
  file that \<^verbatim>\<open>save_to_file\<close> wrote raises nothing and leaves a book equal to S: its
  contact names are those of S, and under each name the phones (in order), the email and
  the birthday are those of the record of S.
\<close>

theorem load_save_round_trip:
  "load_from_file book0 filename (save_to_file S filename fs) = (S, None)
   \<and> set (map fst (fst (load_from_file book0 filename (save_to_file S filename fs))))
       = set (map fst S)
   \<and> (\<forall>n \<in> set (map fst S). \<exists>r r'.
         map_of S n = Some r
         \<and> map_of (fst (load_from_file book0 filename (save_to_file S filename fs))) n = Some r'
         \<and> phones r' = phones r \<and> email r' = email r \<and> birthday r' = birthday r)"
proof -
  have eq: "load_from_file book0 filename (save_to_file S filename fs) = (S, None)"
    by (simp add: load_from_file_def save_to_file_def pickle_load_def pickle_dump_def)
  have "\<forall>n \<in> set (map fst S). \<exists>r. map_of S n = Some r"
    by (metis map_of_eq_None_iff not_Some_eq set_map)
  with eq show ?thesis
    by auto
qed

text \<open>A book of two contacts, saved over an unreadable file and loaded into an empty book.\<close>

theorem load_save_round_trip_witness:
  "load_from_file [] ''phonebook.bin''
     (save_to_file
        [(''Anna'', \<lparr>name = ''Anna'', phones = [''1234567'', ''7654321''],
            birthday = Some \<lparr>year = 1990, month = 3, day = 2, hour = 0, minute = 0, second = 0, microsecond = 0\<rparr>,
            email = Some ''anna@mail.org''\<rparr>),
         (''Bob'', \<lparr>name = ''Bob'', phones = [], birthday = None, email = None\<rparr>)]
        ''phonebook.bin'' [''phonebook.bin'' \<mapsto> Unreadable])
   = ([(''Anna'', \<lparr>name = ''Anna'', phones = [''1234567'', ''7654321''],
            birthday = Some \<lparr>year = 1990, month = 3, day = 2, hour = 0, minute = 0, second = 0, microsecond = 0\<rparr>,
            email = Some ''anna@mail.org''\<rparr>),
         (''Bob'', \<lparr>name = ''Bob'', phones = [], birthday = None, email = None\<rparr>)], None)"
  using load_save_round_trip
    [of "[]" "''phonebook.bin''"
        "[(''Anna'', \<lparr>name = ''Anna'', phones = [''1234567'', ''7654321''],
            birthday = Some \<lparr>year = 1990, month = 3, day = 2, hour = 0, minute = 0, second = 0, microsecond = 0\<rparr>,
            email = Some ''anna@mail.org''\<rparr>),
         (''Bob'', \<lparr>name = ''Bob'', phones = [], birthday = None, email = None\<rparr>)]"
        "[''phonebook.bin'' \<mapsto> Unreadable]"]
  by (rule conjunct1)

end
